theory Spec2Isabelle
  imports Main
begin

section \<open>Values of the host language\<close>

text \<open>
  The proxy passes untyped values around (\<^verbatim>\<open>any\<close>): request parameters, results, caught
  errors. They are modelled by a small datatype of JavaScript values. Numbers are the
  integers, which is all the proxy uses them for (ports, error codes).
\<close>

datatype jsval =
    JUndefined
  | JNull
  | JBool bool
  | JNum int
  | JStr string
  | JArr "jsval list"
  | JObj "(string \<times> jsval) list"

text \<open>The truthiness test of \<^verbatim>\<open>if (v)\<close>.\<close>

fun truthy :: "jsval \<Rightarrow> bool" where
  "truthy JUndefined = False"
| "truthy JNull = False"
| "truthy (JBool b) = b"
| "truthy (JNum n) = (n \<noteq> 0)"
| "truthy (JStr s) = (s \<noteq> [])"
| "truthy (JArr xs) = True"
| "truthy (JObj kvs) = True"

text \<open>\<^verbatim>\<open>Array.isArray(p) ? p : [p]\<close>\<close>

fun as_params :: "jsval \<Rightarrow> jsval list" where
  "as_params (JArr xs) = xs"
| "as_params v = [v]"

text \<open>Decimal rendering of a number in a string concatenation (\<^verbatim>\<open>'...' + this.targetPort\<close>).\<close>

fun decimal :: "nat \<Rightarrow> string" where
  "decimal n =
     (if n < 10 then [''0123456789'' ! n]
      else decimal (n div 10) @ [''0123456789'' ! (n mod 10)])"

definition number_toString :: "int \<Rightarrow> string" where
  "number_toString i = (if i < 0 then ''-'' @ decimal (nat (- i)) else decimal (nat i))"

section \<open>Promises, effects and the proxy object\<close>

text \<open>How a promise stands: still pending, fulfilled with a value, or rejected with a reason.\<close>

datatype 'a settle = Pending | Fulfilled 'a | Rejected jsval

text \<open>
  Sockets, servers, message connections, cancelable tasks and event listeners are heap
  objects with identity; each kind is numbered in order of creation. A message is sent
  under a method name or under one of the protocol library's notification types.
\<close>

datatype msg_type =
    Method string
  | InitializedNotification_type
  | ExitNotification_type

datatype logger_method = Logger_debug | Logger_info | Logger_log | Logger_warn | Logger_error

datatype MessageType =
    MessageType_Error
  | MessageType_Warning
  | MessageType_Info
  | MessageType_Log
  | MessageType_unlisted

text \<open>
  What the proxy does to the outside world, in order: the calls it makes on the \<^verbatim>\<open>net\<close>
  module, on message connections, on the logger and on its event emitter. \<open>Emit\<close> lists
  the listeners invoked, in order of registration; listeners are the callers' code, and
  the model records that they are invoked without running them.
\<close>

datatype effect =
    New_Socket nat
  | Socket_connect nat int string
  | Create_Server nat
  | Server_listen nat int
  | Server_close nat
  | Create_MessageConnection nat "nat option"
  | Conn_onNotification nat
  | Conn_listen nat
  | Conn_sendRequest nat msg_type "jsval list"
  | Conn_sendNotification nat msg_type "jsval list"
  | Logger logger_method string
  | Emit string "nat list"

text \<open>
  Modelled from the spec: the class \<^verbatim>\<open>Cancelable\<close> (\<^verbatim>\<open>../utils/cancelable\<close>) is not among the
  sources. By section 4.1 of the specification it wraps a computation that resolves,
  rejects or is cancelled; \<^verbatim>\<open>cancel\<close> after settlement is a no-op; before settlement it
  invokes the registered cancel hook once and the result rejects with the reason given,
  or with a default reason when none is given. The only hook the proxy registers is the
  one of the listening strategy, which closes the server and rejects.
\<close>

datatype cancel_hook = Close_server_and_reject nat

record cancelable =
  c_state :: "nat settle"
  c_onCancel :: "cancel_hook option"

text \<open>
  A socket is either one the proxy opened to dial out (it remembers the task its
  \<^verbatim>\<open>connect\<close> handler resolves) or one a listening server accepted. A server remembers the
  task it resolves or rejects and whether \<^verbatim>\<open>rej\<close> is still registered for its errors.
\<close>

datatype socket_info = Dialled nat | Accepted nat

record server_info =
  sv_task :: nat
  sv_error_listener :: bool

text \<open>
  The fields of \<^verbatim>\<open>LanguageServerProxy\<close>, followed by the objects it has created and the
  effects it has performed. \<open>lspOptions_verbose\<close> is the \<^verbatim>\<open>verbose\<close> flag of the options
  object the proxy holds a reference to; \<open>eventEmitter\<close> is the list of registered
  listeners, each under its event name.
\<close>

record proxy =
  error :: jsval
  initialized :: bool
  socket :: "nat option"
  clientConnection :: "nat option"
  closed :: bool
  targetHost :: string
  targetPort :: int
  lspOptions_verbose :: bool
  eventEmitter :: "(string \<times> nat) list"
  connectingPromise :: "nat option"
  cancelables :: "cancelable list"
  sockets :: "socket_info list"
  servers :: "server_info list"
  connections :: "nat option list"
  trace :: "effect list"

definition constructor :: "int \<Rightarrow> string \<Rightarrow> bool \<Rightarrow> proxy" where
  "constructor port host verbose =
     \<lparr> error = JNull, initialized = False, socket = None, clientConnection = None,
       closed = False, targetHost = host, targetPort = port,
       lspOptions_verbose = verbose, eventEmitter = [], connectingPromise = None,
       cancelables = [], sockets = [], servers = [], connections = [], trace = [] \<rparr>"

definition perform :: "effect list \<Rightarrow> proxy \<Rightarrow> proxy" where
  "perform es st = st\<lparr>trace := trace st @ es\<rparr>"

definition emit :: "string \<Rightarrow> proxy \<Rightarrow> proxy" where
  "emit ev st = perform [Emit ev (map snd (filter (\<lambda>l. fst l = ev) (eventEmitter st)))] st"

definition on :: "string \<Rightarrow> nat \<Rightarrow> proxy \<Rightarrow> proxy" where
  "on ev listener st = st\<lparr>eventEmitter := eventEmitter st @ [(ev, listener)]\<rparr>"

subsection \<open>Cancelable tasks\<close>

definition task_state :: "nat \<Rightarrow> proxy \<Rightarrow> nat settle" where
  "task_state p st = (if p < length (cancelables st) then c_state (cancelables st ! p) else Pending)"

definition settle_task :: "nat \<Rightarrow> nat settle \<Rightarrow> proxy \<Rightarrow> proxy" where
  "settle_task p s st =
     (if p < length (cancelables st) \<and> task_state p st = Pending
      then st\<lparr>cancelables := (cancelables st)[p := (cancelables st ! p)\<lparr>c_state := s\<rparr>]\<rparr>
      else st)"

definition default_cancel_reason :: jsval where
  "default_cancel_reason = JStr ''cancelled''"

definition cancel :: "nat \<Rightarrow> jsval \<Rightarrow> proxy \<Rightarrow> proxy" where
  "cancel p reason st =
     (let r = (if reason = JUndefined then default_cancel_reason else reason) in
      if p < length (cancelables st) \<and> task_state p st = Pending then
        (case c_onCancel (cancelables st ! p) of
           Some (Close_server_and_reject sv) \<Rightarrow>
             settle_task p (Rejected r) (perform [Server_close sv] st)
         | None \<Rightarrow> settle_task p (Rejected r) st)
      else st)"


subsection \<open>Imported bindings\<close>

text \<open>
  Two bindings the proxy imports are taken as parameters: the error code
  \<^verbatim>\<open>RequestCancelled\<close> (\<^verbatim>\<open>../../common/lsp_error_codes\<close>, not among the sources) and
  \<^verbatim>\<open>fileURLToPath\<close> of the platform's \<^verbatim>\<open>url\<close> module, which returns a path or throws.
\<close>

record imported =
  RequestCancelled :: int
  fileURLToPath :: "string \<Rightarrow> jsval + string"

section \<open>Connection management\<close>

text \<open>
  What \<^verbatim>\<open>connect()\<close> hands to its caller: \<^verbatim>\<open>Promise.resolve(this.clientConnection)\<close> or
  the promise of a cancelable task.
\<close>

datatype conn_promise = Promise_resolve nat | Cancelable_promise nat

fun await :: "conn_promise \<Rightarrow> proxy \<Rightarrow> nat settle" where
  "await (Promise_resolve c) st = Fulfilled c"
| "await (Cancelable_promise p) st = task_state p st"

definition connect :: "proxy \<Rightarrow> conn_promise \<times> proxy" where
  "connect st =
     (case clientConnection st of
        Some c \<Rightarrow> (Promise_resolve c, st)
      | None \<Rightarrow>
          (case connectingPromise st of
             Some p \<Rightarrow> (Cancelable_promise p, st)
           | None \<Rightarrow>
               (let p = length (cancelables st); s = length (sockets st) in
                (Cancelable_promise p,
                 perform [New_Socket s, Socket_connect s (targetPort st) (targetHost st)]
                   (st\<lparr> socket := Some s,
                        sockets := sockets st @ [Dialled p],
                        cancelables := cancelables st @ [\<lparr>c_state = Pending, c_onCancel = None\<rparr>],
                        connectingPromise := Some p \<rparr>)))))"

definition awaitServerConnection :: "proxy \<Rightarrow> conn_promise \<times> proxy" where
  "awaitServerConnection st =
     (case connectingPromise st of
        Some p \<Rightarrow> (Cancelable_promise p, st)
      | None \<Rightarrow>
          (let p = length (cancelables st); sv = length (servers st) in
           (Cancelable_promise p,
            perform [Create_Server sv, Server_listen sv (targetPort st)]
              (st\<lparr> servers := servers st @ [\<lparr>sv_task = p, sv_error_listener = True\<rparr>],
                   cancelables := cancelables st @
                     [\<lparr>c_state = Pending, c_onCancel = Some (Close_server_and_reject sv)\<rparr>],
                   connectingPromise := Some p \<rparr>))))"

definition onSocketClosed :: "proxy \<Rightarrow> proxy" where
  "onSocketClosed st = emit ''close'' (st\<lparr>clientConnection := None, connectingPromise := None\<rparr>)"

text \<open>The body of the handler that \<^verbatim>\<open>registerOnNotificationHandler\<close> installs.\<close>

fun onLogMessage :: "MessageType \<Rightarrow> string \<Rightarrow> proxy \<Rightarrow> proxy" where
  "onLogMessage MessageType_Log m st = perform [Logger Logger_debug m] st"
| "onLogMessage MessageType_Info m st =
     (if lspOptions_verbose st then perform [Logger Logger_info m] st
      else perform [Logger Logger_debug m] st)"
| "onLogMessage MessageType_Warning m st =
     (if lspOptions_verbose st then perform [Logger Logger_warn m] st
      else perform [Logger Logger_log m] st)"
| "onLogMessage MessageType_Error m st =
     (if lspOptions_verbose st then perform [Logger Logger_error m] st
      else perform [Logger Logger_warn m] st)"
| "onLogMessage MessageType_unlisted m st = st"

definition registerOnNotificationHandler :: "nat \<Rightarrow> proxy \<Rightarrow> proxy" where
  "registerOnNotificationHandler c st = perform [Conn_onNotification c] st"

text \<open>
  The \<^verbatim>\<open>connect\<close> handler of a dialled socket, whose task is \<open>p\<close>. It wraps
  \<^verbatim>\<open>this.socket\<close>, whatever that field holds when the event arrives.
\<close>

definition socket_on_connect :: "nat \<Rightarrow> proxy \<Rightarrow> proxy" where
  "socket_on_connect p st =
     (let c = length (connections st);
          st1 = perform [Create_MessageConnection c (socket st)]
                  (st\<lparr>connections := connections st @ [socket st]\<rparr>);
          st2 = st1\<lparr>clientConnection := Some c\<rparr>;
          st3 = registerOnNotificationHandler c st2;
          st4 = perform [Conn_listen c] st3;
          st5 = settle_task p (Fulfilled c) st4
      in emit ''connect'' st5)"

text \<open>The connection handler of the listening server \<open>sv\<close>, accepting a new socket.\<close>

definition server_on_connection :: "nat \<Rightarrow> proxy \<Rightarrow> proxy" where
  "server_on_connection sv st =
     (let s = length (sockets st);
          st1 = st\<lparr>initialized := False\<rparr>;
          st2 = perform [Server_close sv] st1;
          st3 = emit ''connect'' st2;
          st4 = st3\<lparr>sockets := sockets st3 @ [Accepted sv]\<rparr>;
          st5 = perform [Logger Logger_info
                  (''langserver connection established on port '' @ number_toString (targetPort st4))] st4;
          c = length (connections st5);
          st6 = perform [Create_MessageConnection c (Some s)]
                  (st5\<lparr>connections := connections st5 @ [Some s]\<rparr>);
          st7 = st6\<lparr>clientConnection := Some c\<rparr>;
          st8 = registerOnNotificationHandler c st7;
          st9 = perform [Conn_listen c] st8
      in settle_task (sv_task (servers st ! sv)) (Fulfilled c) st9)"

definition server_on_listening :: "nat \<Rightarrow> proxy \<Rightarrow> proxy" where
  "server_on_listening sv st =
     perform [Logger Logger_info
        (''Wait langserver connection on port '' @ number_toString (targetPort st))]
       (st\<lparr>servers := (servers st)[sv := (servers st ! sv)\<lparr>sv_error_listener := False\<rparr>]\<rparr>)"

definition server_on_error :: "nat \<Rightarrow> jsval \<Rightarrow> proxy \<Rightarrow> proxy" where
  "server_on_error sv e st =
     (if sv_error_listener (servers st ! sv)
      then settle_task (sv_task (servers st ! sv)) (Rejected e) st
      else st)"

definition changePort :: "int \<Rightarrow> proxy \<Rightarrow> proxy" where
  "changePort port st =
     (if port \<noteq> targetPort st then
        (let st1 = st\<lparr>targetPort := port\<rparr> in
         case connectingPromise st1 of
           Some p \<Rightarrow> (cancel p JUndefined st1)\<lparr>connectingPromise := None\<rparr>
         | None \<Rightarrow> st1)
      else st)"

definition setError :: "jsval \<Rightarrow> proxy \<Rightarrow> proxy" where
  "setError e st =
     (let st1 = (case connectingPromise st of
                  Some p \<Rightarrow> (cancel p e st)\<lparr>connectingPromise := None\<rparr>
                | None \<Rightarrow> st)
      in st1\<lparr>error := e\<rparr>)"

definition onDisconnected :: "nat \<Rightarrow> proxy \<Rightarrow> proxy" where
  "onDisconnected listener st = on ''close'' listener st"

definition onExit :: "nat \<Rightarrow> proxy \<Rightarrow> proxy" where
  "onExit listener st = on ''exit'' listener st"

definition onConnected :: "nat \<Rightarrow> proxy \<Rightarrow> proxy" where
  "onConnected listener st = on ''connect'' listener st"

section \<open>The public contract\<close>

text \<open>
  \<^verbatim>\<open>LspRequest\<close> (\<^verbatim>\<open>../../model\<close>) is used through three fields. \<^verbatim>\<open>ResponseMessage\<close> has
  optional \<^verbatim>\<open>result\<close> and \<^verbatim>\<open>error\<close> properties: \<open>None\<close> is a property that is not set.
\<close>

record LspRequest =
  method_name :: string
  params :: jsval
  isNotification :: bool

record ResponseMessage =
  r_jsonrpc :: string
  r_id :: jsval
  r_result :: "jsval option"
  r_error :: "jsval option"

record WorkspaceFolder =
  uri :: string
  name :: string

definition server_closed :: "imported \<Rightarrow> jsval" where
  "server_closed env =
     JObj [(''code'', JNum (RequestCancelled env)), (''message'', JStr ''Server closed'')]"

subsection \<open>handleRequest\<close>

text \<open>
  An \<^verbatim>\<open>async\<close> method runs up to its first \<^verbatim>\<open>await\<close> when it is called and is resumed
  later, in a state other callbacks may have changed meanwhile. Where a call of
  \<^verbatim>\<open>handleRequest\<close> stands: suspended on the promise of \<^verbatim>\<open>connect()\<close>, suspended on the
  reply to \<^verbatim>\<open>sendRequest\<close> on a connection, returned, or thrown (its promise rejected).
  The suspended forms carry the local \<^verbatim>\<open>response\<close>.
\<close>

datatype hr_task =
    HR_await_connect ResponseMessage conn_promise
  | HR_await_reply ResponseMessage nat
  | HR_return ResponseMessage
  | HR_throw jsval

definition handleRequest :: "imported \<Rightarrow> LspRequest \<Rightarrow> proxy \<Rightarrow> hr_task \<times> proxy" where
  "handleRequest env request st =
     (let response = \<lparr> r_jsonrpc = [], r_id = JNull, r_result = None,
                        r_error = Some (server_closed env) \<rparr> in
      if closed st then (HR_return (response\<lparr>r_error := Some (server_closed env)\<rparr>), st)
      else (let (p, st1) = connect st in (HR_await_connect response p, st1)))"

text \<open>
  Resuming a suspended call. The settlement of the awaited \<^verbatim>\<open>connect()\<close> promise is read
  from the state; \<open>reply\<close> is what the backend has answered to the request sent, if
  anything yet.
\<close>

fun handleRequest_resume :: "LspRequest \<Rightarrow> hr_task \<Rightarrow> jsval settle \<Rightarrow> proxy \<Rightarrow> hr_task \<times> proxy" where
  "handleRequest_resume request (HR_await_connect response p) reply st =
     (case await p st of
        Pending \<Rightarrow> (HR_await_connect response p, st)
      | Rejected e \<Rightarrow> (HR_throw e, st)
      | Fulfilled conn \<Rightarrow>
          (if \<not> isNotification request then
             (HR_await_reply response conn,
              perform [Conn_sendRequest conn (Method (method_name request)) (as_params (params request))] st)
           else
             (HR_return response,
              perform [Conn_sendNotification conn (Method (method_name request)) (as_params (params request))] st)))"
| "handleRequest_resume request (HR_await_reply response conn) reply st =
     (case reply of
        Pending \<Rightarrow> (HR_await_reply response conn, st)
      | Fulfilled v \<Rightarrow> (HR_return (response\<lparr>r_result := Some v\<rparr>), st)
      | Rejected e \<Rightarrow> (HR_return (response\<lparr>r_error := Some e\<rparr>), st))"
| "handleRequest_resume request (HR_return response) reply st = (HR_return response, st)"
| "handleRequest_resume request (HR_throw e) reply st = (HR_throw e, st)"

subsection \<open>initialize\<close>

datatype init_task =
    Init_await_connect conn_promise
  | Init_await_reply nat string
  | Init_return jsval
  | Init_throw jsval

definition initialize :: "proxy \<Rightarrow> init_task \<times> proxy" where
  "initialize st =
     (if truthy (error st) then (Init_throw (error st), st)
      else (let (p, st1) = connect st in (Init_await_connect p, st1)))"

definition TypeError :: jsval where
  "TypeError = JObj [(''name'', JStr ''TypeError'')]"

definition folder_value :: "WorkspaceFolder \<Rightarrow> jsval" where
  "folder_value w = JObj [(''uri'', JStr (uri w)), (''name'', JStr (name w))]"

text \<open>
  The object literal \<^verbatim>\<open>params\<close>, as its properties in order, and the argument of the
  request: \<^verbatim>\<open>initOptions ? { ...params, initializationOptions: initOptions } : params\<close>.
  \<^verbatim>\<open>initOptions\<close> has type \<^verbatim>\<open>object\<close>, so it is truthy whenever it is given.
\<close>

definition initialize_params ::
    "jsval \<Rightarrow> WorkspaceFolder list \<Rightarrow> string \<Rightarrow> string \<Rightarrow> (string \<times> jsval) list" where
  "initialize_params clientCapabilities workspaceFolders rootUri rootPath =
     [(''processId'', JNull),
      (''workspaceFolders'', JArr (map folder_value workspaceFolders)),
      (''rootUri'', JStr rootUri),
      (''capabilities'', clientCapabilities),
      (''rootPath'', JStr rootPath)]"

definition initialize_argument ::
    "(string \<times> jsval) list \<Rightarrow> (string \<times> jsval) list option \<Rightarrow> jsval" where
  "initialize_argument ps initOptions =
     (case initOptions of
        Some opts \<Rightarrow> JObj (ps @ [(''initializationOptions'', JObj opts)])
      | None \<Rightarrow> JObj ps)"

fun initialize_resume ::
    "imported \<Rightarrow> jsval \<Rightarrow> WorkspaceFolder list \<Rightarrow> (string \<times> jsval) list option \<Rightarrow>
     init_task \<Rightarrow> jsval settle \<Rightarrow> proxy \<Rightarrow> init_task \<times> proxy" where
  "initialize_resume env clientCapabilities workspaceFolders initOptions (Init_await_connect p) reply st =
     (case await p st of
        Pending \<Rightarrow> (Init_await_connect p, st)
      | Rejected e \<Rightarrow> (Init_throw e, st)
      | Fulfilled clientConn \<Rightarrow>
          (case workspaceFolders of
             [] \<Rightarrow> (Init_throw TypeError, st)
           | w # ws \<Rightarrow>
               (let rootUri = uri w in
                case fileURLToPath env rootUri of
                  Inl e \<Rightarrow> (Init_throw e, st)
                | Inr rootPath \<Rightarrow>
                    (Init_await_reply clientConn rootUri,
                     perform [Conn_sendRequest clientConn (Method ''initialize'')
                        [initialize_argument
                           (initialize_params clientCapabilities workspaceFolders rootUri rootPath)
                           initOptions]] st))))"
| "initialize_resume env clientCapabilities workspaceFolders initOptions (Init_await_reply clientConn rootUri) reply st =
     (case reply of
        Pending \<Rightarrow> (Init_await_reply clientConn rootUri, st)
      | Rejected e \<Rightarrow> (Init_throw e, st)
      | Fulfilled r \<Rightarrow>
          (Init_return r,
           (perform [Logger Logger_info (''initialized at '' @ rootUri),
                     Conn_sendNotification clientConn InitializedNotification_type [JObj []]] st)
             \<lparr>initialized := True\<rparr>))"
| "initialize_resume env clientCapabilities workspaceFolders initOptions (Init_return r) reply st = (Init_return r, st)"
| "initialize_resume env clientCapabilities workspaceFolders initOptions (Init_throw e) reply st = (Init_throw e, st)"

subsection \<open>shutdown, exit, unloadWorkspace\<close>

datatype shutdown_task =
    Shutdown_await_connect conn_promise
  | Shutdown_await_reply nat
  | Shutdown_return jsval
  | Shutdown_throw jsval

definition shutdown :: "proxy \<Rightarrow> shutdown_task \<times> proxy" where
  "shutdown st = (let (p, st1) = connect st in (Shutdown_await_connect p, st1))"

fun shutdown_resume :: "shutdown_task \<Rightarrow> jsval settle \<Rightarrow> proxy \<Rightarrow> shutdown_task \<times> proxy" where
  "shutdown_resume (Shutdown_await_connect p) reply st =
     (case await p st of
        Pending \<Rightarrow> (Shutdown_await_connect p, st)
      | Rejected e \<Rightarrow> (Shutdown_throw e, st)
      | Fulfilled clientConn \<Rightarrow>
          (Shutdown_await_reply clientConn,
           perform [Logger Logger_info ''sending shutdown request'',
                    Conn_sendRequest clientConn (Method ''shutdown'') []] st))"
| "shutdown_resume (Shutdown_await_reply clientConn) reply st =
     (case reply of
        Pending \<Rightarrow> (Shutdown_await_reply clientConn, st)
      | Rejected e \<Rightarrow> (Shutdown_throw e, st)
      | Fulfilled r \<Rightarrow> (Shutdown_return r, st))"
| "shutdown_resume (Shutdown_return r) reply st = (Shutdown_return r, st)"
| "shutdown_resume (Shutdown_throw e) reply st = (Shutdown_throw e, st)"

definition exit :: "proxy \<Rightarrow> proxy" where
  "exit st =
     (let st1 = st\<lparr>closed := True\<rparr>;
          st2 = (case clientConnection st1 of
                   Some clientConn \<Rightarrow>
                     perform [Logger Logger_info ''sending `shutdown` request to language server.'',
                              Conn_sendRequest clientConn (Method ''shutdown'') [],
                              Logger Logger_info ''sending `exit` notification to language server.'',
                              Conn_sendNotification clientConn ExitNotification_type []] st1
                 | None \<Rightarrow> st1)
      in emit ''exit'' st2)"

text \<open>
  The three statements of the body of \<^verbatim>\<open>exit\<close>, in the order of the source, and the state
  after the first \<open>k\<close> of them have run.
\<close>

definition exit_statements :: "(proxy \<Rightarrow> proxy) list" where
  "exit_statements =
     [\<lambda>st. st\<lparr>closed := True\<rparr>,
      \<lambda>st. (case clientConnection st of
               Some clientConn \<Rightarrow>
                 perform [Logger Logger_info ''sending `shutdown` request to language server.'',
                          Conn_sendRequest clientConn (Method ''shutdown'') [],
                          Logger Logger_info ''sending `exit` notification to language server.'',
                          Conn_sendNotification clientConn ExitNotification_type []] st
             | None \<Rightarrow> st),
      emit ''exit'']"

definition exit_after :: "nat \<Rightarrow> proxy \<Rightarrow> proxy" where
  "exit_after k st = fold (\<lambda>statement s. statement s) (take k exit_statements) st"

definition unloadWorkspace :: "string \<Rightarrow> unit settle" where
  "unloadWorkspace workspaceDir = Rejected (JStr ''should not hit here'')"

section \<open>Everything that can happen to a proxy\<close>

text \<open>
  One turn of the event loop is a call of a public method (for an \<^verbatim>\<open>async\<close> method, its
  part up to the first \<^verbatim>\<open>await\<close>), the resumption of a suspended call, an event on a socket
  or server the proxy created, a log-message notification arriving on a connection, or
  the owner of the options object changing its \<^verbatim>\<open>verbose\<close> flag. Events on objects that
  do not exist do not happen. The handlers the proxy registers for the \<^verbatim>\<open>error\<close>,
  \<^verbatim>\<open>timeout\<close> and \<^verbatim>\<open>drain\<close> events of a dialled socket do nothing.
\<close>

datatype socket_event = Ev_connect | Ev_close | Ev_error | Ev_timeout | Ev_drain

datatype server_event = Ev_connection | Ev_listening | Ev_server_error jsval

datatype turn =
    Call_connect
  | Call_awaitServerConnection
  | Call_handleRequest LspRequest
  | Call_initialize
  | Call_shutdown
  | Call_exit
  | Call_changePort int
  | Call_setError jsval
  | Call_onDisconnected nat
  | Call_onExit nat
  | Call_onConnected nat
  | Call_unloadWorkspace string
  | Resume_handleRequest LspRequest hr_task "jsval settle"
  | Resume_initialize jsval "WorkspaceFolder list" "(string \<times> jsval) list option" init_task "jsval settle"
  | Resume_shutdown shutdown_task "jsval settle"
  | On_socket nat socket_event
  | On_server nat server_event
  | On_logMessage nat MessageType string
  | Set_verbose bool

fun on_socket :: "socket_info \<Rightarrow> socket_event \<Rightarrow> proxy \<Rightarrow> proxy" where
  "on_socket (Dialled p) Ev_connect st = socket_on_connect p st"
| "on_socket (Dialled p) Ev_close st = onSocketClosed st"
| "on_socket (Dialled p) Ev_error st = st"
| "on_socket (Dialled p) Ev_timeout st = st"
| "on_socket (Dialled p) Ev_drain st = st"
| "on_socket (Accepted sv) Ev_close st = onSocketClosed st"
| "on_socket (Accepted sv) ev st = st"

fun on_server :: "nat \<Rightarrow> server_event \<Rightarrow> proxy \<Rightarrow> proxy" where
  "on_server sv Ev_connection st = server_on_connection sv st"
| "on_server sv Ev_listening st = server_on_listening sv st"
| "on_server sv (Ev_server_error e) st = server_on_error sv e st"

fun step :: "imported \<Rightarrow> turn \<Rightarrow> proxy \<Rightarrow> proxy" where
  "step env Call_connect st = snd (connect st)"
| "step env Call_awaitServerConnection st = snd (awaitServerConnection st)"
| "step env (Call_handleRequest request) st = snd (handleRequest env request st)"
| "step env Call_initialize st = snd (initialize st)"
| "step env Call_shutdown st = snd (shutdown st)"
| "step env Call_exit st = exit st"
| "step env (Call_changePort port) st = changePort port st"
| "step env (Call_setError e) st = setError e st"
| "step env (Call_onDisconnected l) st = onDisconnected l st"
| "step env (Call_onExit l) st = onExit l st"
| "step env (Call_onConnected l) st = onConnected l st"
| "step env (Call_unloadWorkspace d) st = st"
| "step env (Resume_handleRequest request t reply) st = snd (handleRequest_resume request t reply st)"
| "step env (Resume_initialize caps wfs opts t reply) st = snd (initialize_resume env caps wfs opts t reply st)"
| "step env (Resume_shutdown t reply) st = snd (shutdown_resume t reply st)"
| "step env (On_socket s ev) st = (if s < length (sockets st) then on_socket (sockets st ! s) ev st else st)"
| "step env (On_server sv ev) st = (if sv < length (servers st) then on_server sv ev st else st)"
| "step env (On_logMessage c ty m) st = (if c < length (connections st) then onLogMessage ty m st else st)"
| "step env (Set_verbose b) st = st\<lparr>lspOptions_verbose := b\<rparr>"

fun run :: "imported \<Rightarrow> turn list \<Rightarrow> proxy \<Rightarrow> proxy" where
  "run env [] st = st"
| "run env (t # ts) st = run env ts (step env t st)"

section \<open>Runs and sample states\<close>

text \<open>
  A call of \<^verbatim>\<open>handleRequest\<close> driven to its end with no other turn in between: the call,
  its resumption once \<^verbatim>\<open>connect()\<close> has settled, and its resumption on the backend's
  reply.
\<close>

definition handleRequest_alone ::
    "imported \<Rightarrow> LspRequest \<Rightarrow> jsval settle \<Rightarrow> proxy \<Rightarrow> hr_task \<times> proxy" where
  "handleRequest_alone env request reply st =
     (let (t1, st1) = handleRequest env request st;
          (t2, st2) = handleRequest_resume request t1 Pending st1
      in handleRequest_resume request t2 reply st2)"

text \<open>
  Concurrent callers of the two connecting entry points: their calls run one after the
  other within a turn, with no event in between.
\<close>

datatype connect_call = By_connect | By_awaitServerConnection

fun call :: "connect_call \<Rightarrow> proxy \<Rightarrow> conn_promise \<times> proxy" where
  "call By_connect st = connect st"
| "call By_awaitServerConnection st = awaitServerConnection st"

fun calls :: "connect_call list \<Rightarrow> proxy \<Rightarrow> conn_promise list \<times> proxy" where
  "calls [] st = ([], st)"
| "calls (k # ks) st =
     (let (p, st1) = call k st; (ps, st2) = calls ks st1 in (p # ps, st2))"

fun is_setError :: "turn \<Rightarrow> bool" where
  "is_setError (Call_setError e) = True"
| "is_setError t = False"

fun is_changePort :: "turn \<Rightarrow> bool" where
  "is_changePort (Call_changePort port) = True"
| "is_changePort t = False"

text \<open>An effect is aimed at a port when it is not a dial or a listen on another port.\<close>

fun aims_at :: "int \<Rightarrow> effect \<Rightarrow> bool" where
  "aims_at q (Socket_connect s port host) = (port = q)"
| "aims_at q (Server_listen sv port) = (port = q)"
| "aims_at q e = True"


text \<open>
  Sample values for the concrete runs below. \<open>sample_imports\<close> gives \<^verbatim>\<open>RequestCancelled\<close> a
  value and stands in for \<^verbatim>\<open>fileURLToPath\<close> on URLs of the form \<^verbatim>\<open>file://\<close> followed by a path.
\<close>

definition sample_imports :: imported where
  "sample_imports =
     \<lparr> RequestCancelled = - 32800,
       fileURLToPath = (\<lambda>u. if take 7 u = ''file://'' then Inr (drop 7 u)
                             else Inl (JStr ''ERR_INVALID_URL_SCHEME'')) \<rparr>"

definition foo_request :: LspRequest where
  "foo_request = \<lparr> method_name = ''foo'', params = JArr [JNum 1, JNum 2], isNotification = False \<rparr>"

definition proj :: WorkspaceFolder where
  "proj = \<lparr> uri = ''file:///proj'', name = ''proj'' \<rparr>"

text \<open>A new proxy; one that is dialling; one whose dial has succeeded.\<close>

definition fresh :: proxy where
  "fresh = constructor 9000 ''localhost'' False"

definition dialling :: proxy where
  "dialling = snd (connect fresh)"

definition connected :: proxy where
  "connected = run sample_imports [Call_connect, On_socket 0 Ev_connect] fresh"

text \<open>A connected proxy whose port was changed afterwards: a channel and an empty slot.\<close>

definition rewired :: proxy where
  "rewired = run sample_imports [Call_connect, On_socket 0 Ev_connect, Call_changePort 9001] fresh"

text \<open>The same proxy, listening for a new connection beside its channel.\<close>

definition both :: proxy where
  "both = run sample_imports
     [Call_connect, On_socket 0 Ev_connect, Call_changePort 9001, Call_awaitServerConnection] fresh"

text \<open>A proxy whose listening attempt failed to bind its port.\<close>

definition refused :: proxy where
  "refused = run sample_imports
     [Call_awaitServerConnection, On_server 0 (Ev_server_error (JStr ''EADDRINUSE''))] fresh"

section \<open>Supporting lemmas\<close>

lemmas model_defs = perform_def emit_def on_def task_state_def settle_task_def cancel_def
  default_cancel_reason_def connect_def awaitServerConnection_def onSocketClosed_def
  registerOnNotificationHandler_def socket_on_connect_def server_on_connection_def
  server_on_listening_def server_on_error_def changePort_def setError_def onDisconnected_def
  onExit_def onConnected_def server_closed_def handleRequest_def initialize_def
  shutdown_def exit_def constructor_def Let_def

subsection \<open>The sample states, evaluated\<close>

lemma dialling_eval:
  "dialling = \<lparr>error = JNull, initialized = False, socket = Some 0,
    clientConnection = None, closed = False, targetHost = ''localhost'',
    targetPort = 9000, lspOptions_verbose = False, eventEmitter = [],
    connectingPromise = Some 0,
    cancelables = [\<lparr>c_state = Pending, c_onCancel = None\<rparr>],
    sockets = [Dialled 0], servers = [], connections = [],
    trace = [New_Socket 0, Socket_connect 0 9000 ''localhost'']\<rparr>"
  by (simp add: dialling_def fresh_def model_defs)

lemma connected_eval:
  "connected = \<lparr>error = JNull, initialized = False, socket = Some 0,
    clientConnection = Some 0, closed = False, targetHost = ''localhost'',
    targetPort = 9000, lspOptions_verbose = False, eventEmitter = [],
    connectingPromise = Some 0,
    cancelables = [\<lparr>c_state = Fulfilled 0, c_onCancel = None\<rparr>],
    sockets = [Dialled 0], servers = [], connections = [Some 0],
    trace =
      [New_Socket 0, Socket_connect 0 9000 ''localhost'',
       Create_MessageConnection 0 (Some 0), Conn_onNotification 0,
       Conn_listen 0, Emit ''connect'' []]\<rparr>"
  by (simp add: connected_def fresh_def model_defs)

lemma rewired_eval:
  "rewired = \<lparr>error = JNull, initialized = False, socket = Some 0,
    clientConnection = Some 0, closed = False, targetHost = ''localhost'',
    targetPort = 9001, lspOptions_verbose = False, eventEmitter = [],
    connectingPromise = None,
    cancelables = [\<lparr>c_state = Fulfilled 0, c_onCancel = None\<rparr>],
    sockets = [Dialled 0], servers = [], connections = [Some 0],
    trace =
      [New_Socket 0, Socket_connect 0 9000 ''localhost'',
       Create_MessageConnection 0 (Some 0), Conn_onNotification 0,
       Conn_listen 0, Emit ''connect'' []]\<rparr>"
  by (simp add: rewired_def fresh_def model_defs)

lemma both_eval:
  "both = \<lparr>error = JNull, initialized = False, socket = Some 0,
    clientConnection = Some 0, closed = False, targetHost = ''localhost'',
    targetPort = 9001, lspOptions_verbose = False, eventEmitter = [],
    connectingPromise = Some 1,
    cancelables =
      [\<lparr>c_state = Fulfilled 0, c_onCancel = None\<rparr>,
       \<lparr>c_state = Pending, c_onCancel = Some (Close_server_and_reject 0)\<rparr>],
    sockets = [Dialled 0],
    servers = [\<lparr>sv_task = 1, sv_error_listener = True\<rparr>],
    connections = [Some 0],
    trace =
      [New_Socket 0, Socket_connect 0 9000 ''localhost'',
       Create_MessageConnection 0 (Some 0), Conn_onNotification 0,
       Conn_listen 0, Emit ''connect'' [], Create_Server 0,
       Server_listen 0 9001]\<rparr>"
  by (simp add: both_def fresh_def model_defs)

lemma refused_eval:
  "refused = \<lparr>error = JNull, initialized = False, socket = None,
    clientConnection = None, closed = False, targetHost = ''localhost'',
    targetPort = 9000, lspOptions_verbose = False, eventEmitter = [],
    connectingPromise = Some 0,
    cancelables = [\<lparr>c_state = Rejected (JStr ''EADDRINUSE''),
                    c_onCancel = Some (Close_server_and_reject 0)\<rparr>],
    sockets = [], servers = [\<lparr>sv_task = 0, sv_error_listener = True\<rparr>], connections = [],
    trace = [Create_Server 0, Server_listen 0 9000]\<rparr>"
  by (simp add: refused_def fresh_def model_defs)

subsection \<open>What each operation leaves alone\<close>

lemma task_state_updates:
  "task_state p (st\<lparr>connectingPromise := x\<rparr>) = task_state p st"
  "task_state p (st\<lparr>error := e\<rparr>) = task_state p st"
  "task_state p (st\<lparr>targetPort := q\<rparr>) = task_state p st"
  by (simp_all add: task_state_def)

lemma settle_task_frame:
  "closed (settle_task p s st) = closed st"
  "error (settle_task p s st) = error st"
  "clientConnection (settle_task p s st) = clientConnection st"
  "connectingPromise (settle_task p s st) = connectingPromise st"
  "targetPort (settle_task p s st) = targetPort st"
  "targetHost (settle_task p s st) = targetHost st"
  "trace (settle_task p s st) = trace st"
  by (simp_all add: settle_task_def)

lemma cancel_frame:
  "closed (cancel p r st) = closed st"
  "error (cancel p r st) = error st"
  "clientConnection (cancel p r st) = clientConnection st"
  "connectingPromise (cancel p r st) = connectingPromise st"
  "targetPort (cancel p r st) = targetPort st"
  "targetHost (cancel p r st) = targetHost st"
  by (simp_all add: cancel_def Let_def settle_task_frame perform_def
        split: option.splits cancel_hook.splits)

lemma cancel_pending:
  assumes "task_state p st = Pending" and "p < length (cancelables st)"
  shows "task_state p (cancel p r st) = Rejected (if r = JUndefined then default_cancel_reason else r)"
    and "length (cancelables (cancel p r st)) = length (cancelables st)"
    and "sockets (cancel p r st) = sockets st"
    and "trace (cancel p r st) = trace st @
           (case c_onCancel (cancelables st ! p) of
              Some (Close_server_and_reject sv) \<Rightarrow> [Server_close sv] | None \<Rightarrow> [])"
  using assms
  by (simp_all add: cancel_def settle_task_def task_state_def perform_def Let_def
        split: option.splits cancel_hook.splits)

lemma handleRequest_resume_frame:
  "closed (snd (handleRequest_resume request t reply st)) = closed st"
  "error (snd (handleRequest_resume request t reply st)) = error st"
  "clientConnection (snd (handleRequest_resume request t reply st)) = clientConnection st"
  by (cases t; simp add: perform_def split: settle.splits)+

lemma initialize_resume_frame:
  "closed (snd (initialize_resume env caps wfs opts t reply st)) = closed st"
  "error (snd (initialize_resume env caps wfs opts t reply st)) = error st"
  "clientConnection (snd (initialize_resume env caps wfs opts t reply st)) = clientConnection st"
  by (cases t; simp add: perform_def Let_def split: settle.splits list.splits sum.splits)+

lemma shutdown_resume_frame:
  "closed (snd (shutdown_resume t reply st)) = closed st"
  "error (snd (shutdown_resume t reply st)) = error st"
  "clientConnection (snd (shutdown_resume t reply st)) = clientConnection st"
  by (cases t; simp add: perform_def split: settle.splits)+

lemma onLogMessage_frame:
  "closed (onLogMessage ty m st) = closed st"
  "error (onLogMessage ty m st) = error st"
  "clientConnection (onLogMessage ty m st) = clientConnection st"
  by (cases ty; simp add: perform_def)+

lemma on_server_frame:
  "closed (on_server sv ev st) = closed st"
  "error (on_server sv ev st) = error st"
  "clientConnection st = Some c \<Longrightarrow> clientConnection (on_server sv ev st) \<noteq> None"
  by (cases ev; simp add: server_on_connection_def server_on_listening_def server_on_error_def
        settle_task_frame perform_def emit_def registerOnNotificationHandler_def Let_def)+

lemma on_socket_frame:
  "closed (on_socket si ev st) = closed st"
  "error (on_socket si ev st) = error st"
  by (cases si; cases ev; simp add: socket_on_connect_def onSocketClosed_def
        settle_task_frame perform_def emit_def registerOnNotificationHandler_def Let_def)+


lemma connect_frame:
  "closed (snd (connect st)) = closed st"
  "error (snd (connect st)) = error st"
  "clientConnection (snd (connect st)) = clientConnection st"
  by (simp_all add: connect_def perform_def Let_def split: option.splits)

lemma awaitServerConnection_frame:
  "closed (snd (awaitServerConnection st)) = closed st"
  "error (snd (awaitServerConnection st)) = error st"
  "clientConnection (snd (awaitServerConnection st)) = clientConnection st"
  by (simp_all add: awaitServerConnection_def perform_def Let_def split: option.splits)

lemma handleRequest_frame:
  "closed (snd (handleRequest env request st)) = closed st"
  "error (snd (handleRequest env request st)) = error st"
  "clientConnection (snd (handleRequest env request st)) = clientConnection st"
  by (simp_all add: handleRequest_def Let_def connect_frame split: prod.splits)
     (metis connect_frame snd_conv)+

lemma initialize_frame:
  "closed (snd (initialize st)) = closed st"
  "error (snd (initialize st)) = error st"
  "clientConnection (snd (initialize st)) = clientConnection st"
  by (simp_all add: initialize_def split: prod.splits) (metis connect_frame snd_conv)+

lemma shutdown_frame:
  "closed (snd (shutdown st)) = closed st"
  "error (snd (shutdown st)) = error st"
  "clientConnection (snd (shutdown st)) = clientConnection st"
  by (simp_all add: shutdown_def split: prod.splits) (metis connect_frame snd_conv)+

lemma changePort_frame:
  "closed (changePort port st) = closed st"
  "error (changePort port st) = error st"
  "clientConnection (changePort port st) = clientConnection st"
  by (simp_all add: changePort_def Let_def cancel_frame split: option.splits)

lemma setError_frame:
  "closed (setError e st) = closed st"
  "clientConnection (setError e st) = clientConnection st"
  "error (setError e st) = e"
  by (simp_all add: setError_def Let_def cancel_frame split: option.splits)

lemma listener_frame:
  "closed (on ev l st) = closed st"
  "error (on ev l st) = error st"
  "clientConnection (on ev l st) = clientConnection st"
  by (simp_all add: on_def)

lemma exit_unfold:
  "exit st = st\<lparr> closed := True,
       trace := trace st @
         (case clientConnection st of
            Some c \<Rightarrow>
              [Logger Logger_info ''sending `shutdown` request to language server.'',
               Conn_sendRequest c (Method ''shutdown'') [],
               Logger Logger_info ''sending `exit` notification to language server.'',
               Conn_sendNotification c ExitNotification_type []]
          | None \<Rightarrow> []) @
         [Emit ''exit'' (map snd (filter (\<lambda>l. fst l = ''exit'') (eventEmitter st)))] \<rparr>"
  by (simp add: exit_def emit_def perform_def Let_def split: option.splits)

lemmas frames = handleRequest_resume_frame initialize_resume_frame shutdown_resume_frame
  onLogMessage_frame on_server_frame(1,2) on_socket_frame connect_frame awaitServerConnection_frame
  handleRequest_frame initialize_frame shutdown_frame changePort_frame setError_frame listener_frame
  onDisconnected_def onExit_def onConnected_def

subsection \<open>Invariants of a run\<close>

lemma closed_step: "closed st \<Longrightarrow> closed (step env t st)"
  by (cases t) (simp_all add: frames exit_unfold)

lemma closed_run: "closed st \<Longrightarrow> closed (run env ts st)"
  by (induction ts arbitrary: st) (simp_all add: closed_step)

lemma error_step: "\<not> is_setError t \<Longrightarrow> error (step env t st) = error st"
  by (cases t) (simp_all add: frames exit_unfold)

lemma error_run: "\<forall>t \<in> set ts. \<not> is_setError t \<Longrightarrow> error (run env ts st) = error st"
  by (induction ts arbitrary: st) (simp_all add: error_step)


subsection \<open>Where attempts are aimed\<close>

lemma connect_aims:
  "targetPort (snd (connect st)) = targetPort st \<and>
   (\<exists>es. trace (snd (connect st)) = trace st @ es \<and> list_all (aims_at (targetPort st)) es)"
  by (simp add: connect_def perform_def Let_def split: option.splits)

lemma awaitServerConnection_aims:
  "targetPort (snd (awaitServerConnection st)) = targetPort st \<and>
   (\<exists>es. trace (snd (awaitServerConnection st)) = trace st @ es \<and> list_all (aims_at (targetPort st)) es)"
  by (simp add: awaitServerConnection_def perform_def Let_def split: option.splits)

lemma handleRequest_aims:
  "targetPort (snd (handleRequest env r st)) = targetPort st \<and>
   (\<exists>es. trace (snd (handleRequest env r st)) = trace st @ es \<and> list_all (aims_at (targetPort st)) es)"
  using connect_aims [of st] by (simp add: handleRequest_def Let_def split: prod.splits) (metis snd_conv)

lemma initialize_aims:
  "targetPort (snd (initialize st)) = targetPort st \<and>
   (\<exists>es. trace (snd (initialize st)) = trace st @ es \<and> list_all (aims_at (targetPort st)) es)"
  using connect_aims [of st] by (simp add: initialize_def Let_def split: prod.splits) (metis snd_conv)

lemma shutdown_aims:
  "targetPort (snd (shutdown st)) = targetPort st \<and>
   (\<exists>es. trace (snd (shutdown st)) = trace st @ es \<and> list_all (aims_at (targetPort st)) es)"
  using connect_aims [of st] by (simp add: shutdown_def Let_def split: prod.splits) (metis snd_conv)

lemma exit_aims:
  "targetPort (exit st) = targetPort st \<and>
   (\<exists>es. trace (exit st) = trace st @ es \<and> list_all (aims_at (targetPort st)) es)"
  by (simp add: exit_unfold split: option.splits)

lemma setError_aims:
  "targetPort (setError e st) = targetPort st \<and>
   (\<exists>es. trace (setError e st) = trace st @ es \<and> list_all (aims_at (targetPort st)) es)"
  by (simp add: setError_def cancel_def settle_task_def perform_def Let_def
        split: option.splits cancel_hook.splits)

lemma handleRequest_resume_aims:
  "targetPort (snd (handleRequest_resume r t reply st)) = targetPort st \<and>
   (\<exists>es. trace (snd (handleRequest_resume r t reply st)) = trace st @ es \<and> list_all (aims_at (targetPort st)) es)"
  by (cases t; simp add: perform_def split: settle.splits)

lemma initialize_resume_aims:
  "targetPort (snd (initialize_resume env caps wfs opts t reply st)) = targetPort st \<and>
   (\<exists>es. trace (snd (initialize_resume env caps wfs opts t reply st)) = trace st @ es \<and> list_all (aims_at (targetPort st)) es)"
  by (cases t; simp add: perform_def Let_def split: settle.splits list.splits sum.splits)

lemma shutdown_resume_aims:
  "targetPort (snd (shutdown_resume t reply st)) = targetPort st \<and>
   (\<exists>es. trace (snd (shutdown_resume t reply st)) = trace st @ es \<and> list_all (aims_at (targetPort st)) es)"
  by (cases t; simp add: perform_def split: settle.splits)

lemma on_socket_aims:
  "targetPort (on_socket si ev st) = targetPort st \<and>
   (\<exists>es. trace (on_socket si ev st) = trace st @ es \<and> list_all (aims_at (targetPort st)) es)"
  by (cases si; cases ev; simp add: socket_on_connect_def onSocketClosed_def
        settle_task_def perform_def emit_def registerOnNotificationHandler_def Let_def)

lemma on_server_aims:
  "targetPort (on_server sv ev st) = targetPort st \<and>
   (\<exists>es. trace (on_server sv ev st) = trace st @ es \<and> list_all (aims_at (targetPort st)) es)"
  by (cases ev; simp add: server_on_connection_def server_on_listening_def server_on_error_def
        settle_task_def perform_def emit_def registerOnNotificationHandler_def Let_def)

lemma onLogMessage_aims:
  "targetPort (onLogMessage ty m st) = targetPort st \<and>
   (\<exists>es. trace (onLogMessage ty m st) = trace st @ es \<and> list_all (aims_at (targetPort st)) es)"
  by (cases ty; simp add: perform_def)

lemma step_aims:
  "\<not> is_changePort t \<Longrightarrow>
     targetPort (step env t st) = targetPort st \<and>
     (\<exists>es. trace (step env t st) = trace st @ es \<and> list_all (aims_at (targetPort st)) es)"
  by (cases t)
     (simp_all add: connect_aims awaitServerConnection_aims handleRequest_aims initialize_aims
        shutdown_aims exit_aims setError_aims handleRequest_resume_aims initialize_resume_aims
        shutdown_resume_aims on_socket_aims on_server_aims onLogMessage_aims
        onDisconnected_def onExit_def onConnected_def on_def)

lemma run_aims:
  "\<forall>t \<in> set ts. \<not> is_changePort t \<Longrightarrow>
     targetPort (run env ts st) = targetPort st \<and>
     (\<exists>es. trace (run env ts st) = trace st @ es \<and> list_all (aims_at (targetPort st)) es)"
proof (induction ts arbitrary: st)
  case Nil
  then show ?case by simp
next
  case (Cons t ts)
  from Cons.prems have t: "\<not> is_changePort t" and ts: "\<forall>t \<in> set ts. \<not> is_changePort t"
    by simp_all
  from step_aims [OF t, of env st] obtain es1 where
    s1: "targetPort (step env t st) = targetPort st" "trace (step env t st) = trace st @ es1"
      "list_all (aims_at (targetPort st)) es1"
    by blast
  from Cons.IH [OF ts, of "step env t st"] obtain es2 where
    s2: "targetPort (run env ts (step env t st)) = targetPort (step env t st)"
      "trace (run env ts (step env t st)) = trace (step env t st) @ es2"
      "list_all (aims_at (targetPort (step env t st))) es2"
    by blast
  from s1 s2 have "trace (run env (t # ts) st) = trace st @ (es1 @ es2)"
      "list_all (aims_at (targetPort st)) (es1 @ es2)"
    by simp_all
  with s1 s2 show ?case by (metis run.simps(2))
qed

subsection \<open>Concurrent connecting calls\<close>

lemma call_after_slot:
  "clientConnection st = None \<Longrightarrow> connectingPromise st = Some p \<Longrightarrow>
     call k st = (Cancelable_promise p, st)"
  by (cases k) (simp_all add: connect_def awaitServerConnection_def)

lemma calls_after_slot:
  "clientConnection st = None \<Longrightarrow> connectingPromise st = Some p \<Longrightarrow>
     calls ks st = (replicate (length ks) (Cancelable_promise p), st)"
  by (induction ks) (simp_all add: call_after_slot)

lemma call_fills_slot:
  "clientConnection st = None \<Longrightarrow>
     \<exists>p. call k st = (Cancelable_promise p, snd (call k st)) \<and>
         connectingPromise (snd (call k st)) = Some p \<and> clientConnection (snd (call k st)) = None"
  by (cases k)
     (auto simp add: connect_def awaitServerConnection_def perform_def Let_def split: option.splits)

lemma calls_share_one_attempt:
  assumes "clientConnection st = None"
  shows "calls (k # ks) st = (replicate (Suc (length ks)) (fst (call k st)), snd (call k st))"
proof -
  obtain p where p: "call k st = (Cancelable_promise p, snd (call k st))"
      "connectingPromise (snd (call k st)) = Some p" "clientConnection (snd (call k st)) = None"
    using call_fills_slot [OF assms] by blast
  have "calls ks (snd (call k st)) = (replicate (length ks) (Cancelable_promise p), snd (call k st))"
    using p(2,3) by (rule calls_after_slot [rotated])
  moreover have "fst (call k st) = Cancelable_promise p"
    using p(1) by (metis fst_conv)
  ultimately show ?thesis
    by (simp add: case_prod_unfold)
qed

lemma connects_with_channel:
  "clientConnection st = Some c \<Longrightarrow>
     calls (replicate n By_connect) st = (replicate n (Promise_resolve c), st)"
  by (induction n) (simp_all add: connect_def)

lemma call_attempts:
  "length (cancelables (snd (call k st))) \<le> Suc (length (cancelables st))"
  by (cases k)
     (simp_all add: connect_def awaitServerConnection_def perform_def Let_def split: option.splits)

section \<open>handleRequest\<close>

text \<open>
  Claim C1 says that \<^verbatim>\<open>handleRequest\<close>, on a proxy that is not closed, never rejects, a
  rejection of the underlying \<^verbatim>\<open>connect()\<close> attempt included. It does reject. On a proxy
  whose listening attempt failed to bind, the slot still holds the rejected task,
  \<^verbatim>\<open>connect()\<close> hands it out, and the \<^verbatim>\<open>await\<close>, which stands outside the \<^verbatim>\<open>try\<close> block,
  throws the bind error to the caller. Likewise a call suspended on a dial is rejected
  when \<^verbatim>\<open>setError\<close> cancels the attempt.
\<close>

theorem handleRequest_propagates_connect_rejection:
  "\<not> closed refused \<and>
   handleRequest sample_imports foo_request refused =
     (HR_await_connect \<lparr> r_jsonrpc = [], r_id = JNull, r_result = None,
                          r_error = Some (server_closed sample_imports) \<rparr> (Cancelable_promise 0),
      refused) \<and>
   fst (handleRequest_resume foo_request (fst (handleRequest sample_imports foo_request refused))
          Pending refused)
     = HR_throw (JStr ''EADDRINUSE'') \<and>
   \<not> closed fresh \<and>
   fst (handleRequest_resume foo_request (fst (handleRequest sample_imports foo_request fresh)) Pending
          (setError (JStr ''launch failed'') (snd (handleRequest sample_imports foo_request fresh))))
     = HR_throw (JStr ''launch failed'')"
  by (simp add: refused_eval fresh_def foo_request_def model_defs)

text \<open>
  Claim C1, amended. While the proxy is not closed, a call of \<^verbatim>\<open>handleRequest\<close> suspends on
  the promise of \<^verbatim>\<open>connect()\<close>, having done nothing but that call of \<^verbatim>\<open>connect()\<close>. It
  rejects exactly when that promise is rejected, with the promise's reason. Once
  \<^verbatim>\<open>connect()\<close> has yielded a channel the call never rejects: a rejection of
  \<^verbatim>\<open>sendRequest\<close> is returned as a response whose \<^verbatim>\<open>error\<close> field holds the rejection.
\<close>

theorem handleRequest_rejects_only_with_connect:
  assumes "\<not> closed st"
  shows "(\<exists>response. fst (handleRequest env request st) = HR_await_connect response (fst (connect st))) \<and>
         snd (handleRequest env request st) = snd (connect st) \<and>
         (\<forall>response p reply st' e.
            (fst (handleRequest_resume request (HR_await_connect response p) reply st') = HR_throw e)
              = (await p st' = Rejected e)) \<and>
         (\<forall>response conn reply st' e.
            fst (handleRequest_resume request (HR_await_reply response conn) reply st') \<noteq> HR_throw e) \<and>
         (\<forall>response conn st' e.
            handleRequest_resume request (HR_await_reply response conn) (Rejected e) st'
              = (HR_return (response\<lparr>r_error := Some e\<rparr>), st'))"
proof -
  have call: "handleRequest env request st =
      (HR_await_connect \<lparr> r_jsonrpc = [], r_id = JNull, r_result = None,
                           r_error = Some (server_closed env) \<rparr> (fst (connect st)), snd (connect st))"
    using assms by (simp add: handleRequest_def Let_def split: prod.splits)
  have throws: "(fst (handleRequest_resume request (HR_await_connect response p) reply st') = HR_throw e)
      = (await p st' = Rejected e)" for response p reply st' e
    by (cases "await p st'") auto
  have replied: "fst (handleRequest_resume request (HR_await_reply response conn) reply st') \<noteq> HR_throw e"
    for response conn reply st' e
    by (cases reply) auto
  show ?thesis
    using call throws replied by simp
qed

theorem handleRequest_rejects_only_with_connect_witness:
  "fst (handleRequest_resume foo_request
          (HR_await_reply \<lparr> r_jsonrpc = [], r_id = JNull, r_result = None,
                             r_error = Some (server_closed sample_imports) \<rparr> 0)
          (Rejected (JStr ''connection closed'')) connected)
     = HR_return \<lparr> r_jsonrpc = [], r_id = JNull, r_result = None,
                   r_error = Some (JStr ''connection closed'') \<rparr> \<and>
   snd (handleRequest sample_imports foo_request connected) = connected"
proof -
  have open_proxy: "\<not> closed connected"
    by (simp add: connected_eval)
  have "snd (connect connected) = connected"
    by (simp add: connected_eval connect_def)
  with handleRequest_rejects_only_with_connect [OF open_proxy, of sample_imports foo_request]
  show ?thesis by simp
qed

text \<open>
  Claim C2 says that a response of a proxy that is not closed has exactly one of \<^verbatim>\<open>result\<close>
  and \<^verbatim>\<open>error\<close> set: a successful request has its result and no error, a forwarded
  notification neither a result nor a synthesized error. The code does otherwise. The
  response object is created with the "Server closed" error already in it, and no path
  removes it: on a proxy that is not closed and has a channel, a request the backend
  answers with \<open>v\<close> returns both \<open>v\<close> and the "Server closed" error, and a notification
  returns the "Server closed" error.
\<close>

theorem handleRequest_success_carries_error:
  assumes "\<not> closed st" and "clientConnection st = Some c"
  shows "fst (handleRequest_alone env request (Fulfilled v) st) =
           HR_return \<lparr> r_jsonrpc = [], r_id = JNull,
                       r_result = (if isNotification request then None else Some v),
                       r_error = Some (server_closed env) \<rparr>"
  using assms by (simp add: handleRequest_alone_def handleRequest_def connect_def Let_def)

theorem handleRequest_success_carries_error_witness:
  "fst (handleRequest_alone sample_imports foo_request (Fulfilled (JNum 42)) connected) =
     HR_return \<lparr> r_jsonrpc = [], r_id = JNull, r_result = Some (JNum 42),
       r_error = Some (JObj [(''code'', JNum (- 32800)), (''message'', JStr ''Server closed'')]) \<rparr>"
proof -
  have "\<not> closed connected" and "clientConnection connected = Some 0"
    by (simp_all add: connected_eval)
  from handleRequest_success_carries_error [OF this, of sample_imports foo_request "JNum 42"]
  show ?thesis by (simp add: foo_request_def server_closed_def sample_imports_def)
qed

section \<open>The closed proxy\<close>

text \<open>
  Claim C3 says that once \<^verbatim>\<open>closed\<close> is true no operation of the proxy creates a new
  connection attempt. Only \<^verbatim>\<open>handleRequest\<close> consults the flag: \<^verbatim>\<open>connect()\<close> on a proxy that
  has exited opens a socket and dials, and so do \<^verbatim>\<open>initialize\<close> and \<^verbatim>\<open>shutdown\<close>, which
  call it.
\<close>

theorem connect_after_exit_dials:
  "closed (exit fresh) \<and>
   connect (exit fresh) =
     (Cancelable_promise 0,
      (exit fresh)\<lparr> socket := Some 0, sockets := [Dialled 0],
                    cancelables := [\<lparr>c_state = Pending, c_onCancel = None\<rparr>],
                    connectingPromise := Some 0,
                    trace := trace (exit fresh) @ [New_Socket 0, Socket_connect 0 9000 ''localhost''] \<rparr>) \<and>
   snd (shutdown (exit fresh)) = snd (connect (exit fresh)) \<and>
   snd (initialize (exit fresh)) = snd (connect (exit fresh))"
  by (simp add: fresh_def model_defs)

text \<open>
  Claim C3, amended. After \<^verbatim>\<open>exit()\<close>, whatever happens to the proxy next, \<^verbatim>\<open>closed\<close> stays
  true and every call of \<^verbatim>\<open>handleRequest\<close> returns at once the response whose error is
  \<^verbatim>\<open>{code: RequestCancelled, message: "Server closed"}\<close>, leaving the proxy as it was: no
  connection attempt is created and nothing is sent or opened.
\<close>

theorem closed_proxy_answers_locally:
  "closed (run env ts (exit st)) \<and>
   handleRequest env request (run env ts (exit st)) =
     (HR_return \<lparr> r_jsonrpc = [], r_id = JNull, r_result = None,
                  r_error = Some (JObj [(''code'', JNum (RequestCancelled env)),
                                        (''message'', JStr ''Server closed'')]) \<rparr>,
      run env ts (exit st))"
proof -
  have "closed (exit st)" by (simp add: exit_unfold)
  then have "closed (run env ts (exit st))" by (rule closed_run)
  then show ?thesis by (simp add: handleRequest_def server_closed_def)
qed

theorem closed_proxy_answers_locally_witness:
  "handleRequest sample_imports foo_request
     (run sample_imports [Call_shutdown, Call_initialize] (exit connected)) =
     (HR_return \<lparr> r_jsonrpc = [], r_id = JNull, r_result = None,
                  r_error = Some (JObj [(''code'', JNum (- 32800)), (''message'', JStr ''Server closed'')]) \<rparr>,
      run sample_imports [Call_shutdown, Call_initialize] (exit connected))"
  using closed_proxy_answers_locally
    [of sample_imports "[Call_shutdown, Call_initialize]" connected foo_request]
  by (simp add: sample_imports_def)

section \<open>One attempt at a time\<close>

text \<open>
  Claim C4 says of \<^verbatim>\<open>connect()\<close> and of \<^verbatim>\<open>awaitServerConnection()\<close> alike that an existing
  channel is returned with no new I/O. \<^verbatim>\<open>awaitServerConnection()\<close> looks at the slot
  only. On a proxy that has a channel and an empty slot (connected, then its port
  changed) it opens a listening server and returns a new pending attempt, while
  \<^verbatim>\<open>connect()\<close> called beside it returns the channel: two concurrent callers receive
  different things.
\<close>

theorem awaitServerConnection_listens_beside_a_channel:
  "clientConnection rewired = Some 0 \<and>
   fst (awaitServerConnection rewired) = Cancelable_promise 1 \<and>
   await (Cancelable_promise 1) (snd (awaitServerConnection rewired)) = Pending \<and>
   trace (snd (awaitServerConnection rewired)) = trace rewired @ [Create_Server 0, Server_listen 0 9001] \<and>
   fst (calls [By_connect, By_awaitServerConnection] rewired) = [Promise_resolve 0, Cancelable_promise 1]"
  by (simp add: rewired_eval model_defs)

text \<open>
  Claim C4, amended. \<^verbatim>\<open>connect()\<close> returns the existing channel, with no effect, when
  there is one; otherwise the attempt in the slot when there is one; otherwise it starts
  one dial to the target port and host. \<^verbatim>\<open>awaitServerConnection()\<close> returns the attempt in
  the slot when there is one and otherwise starts one listening attempt, whether or not a
  channel exists. Any number of concurrent calls of \<^verbatim>\<open>connect()\<close> on a proxy with a channel
  all receive that channel; any number of concurrent calls of either kind on a proxy with
  no channel all receive the promise of one and the same attempt, the state after them is
  the state after the first, and at most one attempt has been started.
\<close>

theorem concurrent_connects_share_one_attempt:
  "(clientConnection st = Some c \<longrightarrow>
      connect st = (Promise_resolve c, st) \<and>
      calls (replicate n By_connect) st = (replicate n (Promise_resolve c), st)) \<and>
   (clientConnection st = None \<longrightarrow> connectingPromise st = Some p \<longrightarrow>
      connect st = (Cancelable_promise p, st)) \<and>
   (connectingPromise st = Some p \<longrightarrow>
      awaitServerConnection st = (Cancelable_promise p, st)) \<and>
   (clientConnection st = None \<longrightarrow> connectingPromise st = None \<longrightarrow>
      connect st =
        (Cancelable_promise (length (cancelables st)),
         st\<lparr> socket := Some (length (sockets st)),
             sockets := sockets st @ [Dialled (length (cancelables st))],
             cancelables := cancelables st @ [\<lparr>c_state = Pending, c_onCancel = None\<rparr>],
             connectingPromise := Some (length (cancelables st)),
             trace := trace st @ [New_Socket (length (sockets st)),
                                  Socket_connect (length (sockets st)) (targetPort st) (targetHost st)] \<rparr>)) \<and>
   (connectingPromise st = None \<longrightarrow>
      awaitServerConnection st =
        (Cancelable_promise (length (cancelables st)),
         st\<lparr> servers := servers st @ [\<lparr>sv_task = length (cancelables st), sv_error_listener = True\<rparr>],
             cancelables := cancelables st @
               [\<lparr>c_state = Pending, c_onCancel = Some (Close_server_and_reject (length (servers st)))\<rparr>],
             connectingPromise := Some (length (cancelables st)),
             trace := trace st @ [Create_Server (length (servers st)),
                                  Server_listen (length (servers st)) (targetPort st)] \<rparr>)) \<and>
   (clientConnection st = None \<longrightarrow>
      calls (k # ks) st = (replicate (Suc (length ks)) (fst (call k st)), snd (call k st)) \<and>
      length (cancelables (snd (calls (k # ks) st))) \<le> Suc (length (cancelables st)))"
proof -
  have "clientConnection st = None \<Longrightarrow>
      length (cancelables (snd (calls (k # ks) st))) \<le> Suc (length (cancelables st))"
    using calls_share_one_attempt [of st k ks] call_attempts [of k st] by simp
  then show ?thesis
    using calls_share_one_attempt [of st k ks] connects_with_channel [of st c n]
    by (simp add: connect_def awaitServerConnection_def perform_def Let_def)
qed

theorem concurrent_connects_share_one_attempt_witness:
  "calls [By_connect, By_awaitServerConnection, By_connect] fresh =
     ([Cancelable_promise 0, Cancelable_promise 0, Cancelable_promise 0], snd (connect fresh)) \<and>
   trace (snd (connect fresh)) = [New_Socket 0, Socket_connect 0 9000 ''localhost'']"
proof -
  have none: "clientConnection fresh = None" "connectingPromise fresh = None"
    by (simp_all add: fresh_def constructor_def)
  from concurrent_connects_share_one_attempt
         [of fresh _ _ _ By_connect "[By_awaitServerConnection, By_connect]"] none
  have "calls [By_connect, By_awaitServerConnection, By_connect] fresh
      = (replicate 3 (fst (connect fresh)), snd (connect fresh))"
    by (simp del: calls.simps add: numeral_3_eq_3)
  moreover have "fst (connect fresh) = Cancelable_promise 0"
    "trace (snd (connect fresh)) = [New_Socket 0, Socket_connect 0 9000 ''localhost'']"
    by (simp_all add: fresh_def model_defs)
  ultimately show ?thesis by (simp add: numeral_3_eq_3)
qed

section \<open>Changing the port, setting the error\<close>

text \<open>
  Claim C5 says that after \<^verbatim>\<open>changePort\<close> has cancelled an attempt in flight the next
  \<^verbatim>\<open>connect()\<close> dials the new port. \<^verbatim>\<open>connect()\<close> looks for a channel first. On a proxy that
  listens for a new connection beside its channel, \<^verbatim>\<open>changePort\<close> to another port cancels
  the listening attempt, and the next \<^verbatim>\<open>connect()\<close> returns the channel and dials nothing.
  And \<^verbatim>\<open>changePort\<close> does not destroy the socket of a dial it cancels: when that socket
  connects to the old port before the next \<^verbatim>\<open>connect()\<close>, that call returns the channel over
  it and dials nothing.
\<close>

theorem connect_after_changePort_keeps_old_channel:
  "targetPort both = 9001 \<and>
   connectingPromise both = Some 1 \<and>
   task_state 1 both = Pending \<and>
   task_state 1 (changePort 9002 both) = Rejected (JStr ''cancelled'') \<and>
   connectingPromise (changePort 9002 both) = None \<and>
   connect (changePort 9002 both) = (Promise_resolve 0, changePort 9002 both) \<and>
   trace (changePort 9002 both) =
     [New_Socket 0, Socket_connect 0 9000 ''localhost'',
      Create_MessageConnection 0 (Some 0), Conn_onNotification 0,
      Conn_listen 0, Emit ''connect'' [], Create_Server 0,
      Server_listen 0 9001, Server_close 0] \<and>
   targetPort dialling = 9000 \<and>
   connectingPromise dialling = Some 0 \<and>
   task_state 0 dialling = Pending \<and>
   clientConnection dialling = None \<and>
   connect (run sample_imports [On_socket 0 Ev_connect] (changePort 9001 dialling)) =
     (Promise_resolve 0, run sample_imports [On_socket 0 Ev_connect] (changePort 9001 dialling)) \<and>
   trace (run sample_imports [On_socket 0 Ev_connect] (changePort 9001 dialling)) =
     [New_Socket 0, Socket_connect 0 9000 ''localhost'',
      Create_MessageConnection 0 (Some 0), Conn_onNotification 0,
      Conn_listen 0, Emit ''connect'' []]"
  by (simp add: both_eval dialling_eval model_defs)

text \<open>
  Claim C5, amended. Let the slot hold a pending attempt. For every port that differs
  from the target port, \<^verbatim>\<open>changePort\<close> cancels the attempt (the server of a listening
  attempt is closed, and the promise is rejected with the default reason, since
  \<^verbatim>\<open>cancel()\<close> is called without one), clears the slot, stores the port and changes nothing
  else. A \<^verbatim>\<open>connect()\<close> made directly afterwards starts a new attempt, not the cancelled
  one, on a new socket that dials the new port on the unchanged host, when the proxy has
  no channel; when it has a channel, \<^verbatim>\<open>connect()\<close> returns that channel and dials nothing.
  Whatever happens to the proxy afterwards, short of another \<^verbatim>\<open>changePort\<close>, the target port
  stays the new one and every dial and every listen the proxy starts is on the new port,
  never on the old one.
\<close>

theorem changePort_cancels_and_redirects:
  assumes "port \<noteq> targetPort st"
    and "connectingPromise st = Some p" and "p < length (cancelables st)"
    and "task_state p st = Pending"
  shows "changePort port st =
           st\<lparr> targetPort := port,
               connectingPromise := None,
               cancelables := (cancelables st)
                 [p := (cancelables st ! p)\<lparr>c_state := Rejected default_cancel_reason\<rparr>],
               trace := trace st @
                 (case c_onCancel (cancelables st ! p) of
                    Some (Close_server_and_reject sv) \<Rightarrow> [Server_close sv]
                  | None \<Rightarrow> []) \<rparr> \<and>
         task_state p (changePort port st) = Rejected default_cancel_reason \<and>
         (clientConnection st = None \<longrightarrow>
            connect (changePort port st) =
              (Cancelable_promise (length (cancelables st)),
               (changePort port st)
                 \<lparr> socket := Some (length (sockets st)),
                   sockets := sockets st @ [Dialled (length (cancelables st))],
                   cancelables := cancelables (changePort port st) @
                     [\<lparr>c_state = Pending, c_onCancel = None\<rparr>],
                   connectingPromise := Some (length (cancelables st)),
                   trace := trace (changePort port st) @
                     [New_Socket (length (sockets st)),
                      Socket_connect (length (sockets st)) port (targetHost st)] \<rparr>) \<and>
            p \<noteq> length (cancelables st)) \<and>
         (\<forall>c. clientConnection st = Some c \<longrightarrow>
            connect (changePort port st) = (Promise_resolve c, changePort port st)) \<and>
         (\<forall>ts. (\<forall>t \<in> set ts. \<not> is_changePort t) \<longrightarrow>
            targetPort (run env ts (changePort port st)) = port \<and>
            take (length (trace (changePort port st))) (trace (run env ts (changePort port st)))
              = trace (changePort port st) \<and>
            list_all (aims_at port)
              (drop (length (trace (changePort port st))) (trace (run env ts (changePort port st)))))"
proof -
  have unfolded: "changePort port st =
           st\<lparr> targetPort := port,
               connectingPromise := None,
               cancelables := (cancelables st)
                 [p := (cancelables st ! p)\<lparr>c_state := Rejected default_cancel_reason\<rparr>],
               trace := trace st @
                 (case c_onCancel (cancelables st ! p) of
                    Some (Close_server_and_reject sv) \<Rightarrow> [Server_close sv]
                  | None \<Rightarrow> []) \<rparr>"
    using assms
    by (simp add: changePort_def cancel_def settle_task_def task_state_def perform_def Let_def
          split: option.splits cancel_hook.splits)
  have rejected: "task_state p (changePort port st) = Rejected default_cancel_reason"
    using assms(3) by (simp add: unfolded task_state_def)
  have fields: "clientConnection (changePort port st) = clientConnection st"
      "connectingPromise (changePort port st) = None"
      "targetPort (changePort port st) = port"
      "targetHost (changePort port st) = targetHost st"
      "sockets (changePort port st) = sockets st"
      "length (cancelables (changePort port st)) = length (cancelables st)"
    by (simp_all add: unfolded)
  have dials: "connect (changePort port st) =
      (Cancelable_promise (length (cancelables st)),
       (changePort port st)
         \<lparr> socket := Some (length (sockets st)),
           sockets := sockets st @ [Dialled (length (cancelables st))],
           cancelables := cancelables (changePort port st) @
             [\<lparr>c_state = Pending, c_onCancel = None\<rparr>],
           connectingPromise := Some (length (cancelables st)),
           trace := trace (changePort port st) @
             [New_Socket (length (sockets st)),
              Socket_connect (length (sockets st)) port (targetHost st)] \<rparr>)"
    if "clientConnection st = None"
    using that fields by (simp add: connect_def perform_def Let_def)
  have returns: "connect (changePort port st) = (Promise_resolve c, changePort port st)"
    if "clientConnection st = Some c" for c
    using that fields by (simp add: connect_def)
  have later: "targetPort (run env ts (changePort port st)) = port \<and>
      take (length (trace (changePort port st))) (trace (run env ts (changePort port st)))
        = trace (changePort port st) \<and>
      list_all (aims_at port)
        (drop (length (trace (changePort port st))) (trace (run env ts (changePort port st))))"
    if "\<forall>t \<in> set ts. \<not> is_changePort t" for ts
    using run_aims [OF that, of env "changePort port st"] fields(3) by auto
  show ?thesis
    using unfolded rejected dials returns later assms(3) by blast
qed

theorem changePort_cancels_and_redirects_witness:
  "task_state 0 dialling = Pending \<and>
   task_state 0 (changePort 9001 dialling) = Rejected (JStr ''cancelled'') \<and>
   connectingPromise (changePort 9001 dialling) = None \<and>
   fst (connect (changePort 9001 dialling)) = Cancelable_promise 1 \<and>
   trace (snd (connect (changePort 9001 dialling))) =
     [New_Socket 0, Socket_connect 0 9000 ''localhost'', New_Socket 1, Socket_connect 1 9001 ''localhost''] \<and>
   trace (changePort 9002 both) = trace both @ [Server_close 0] \<and>
   targetPort (run sample_imports [Call_connect, On_socket 0 Ev_connect] (changePort 9001 dialling)) = 9001"
proof -
  have h: "9001 \<noteq> targetPort dialling" "connectingPromise dialling = Some 0"
      "0 < length (cancelables dialling)" "task_state 0 dialling = Pending"
    by (simp_all add: dialling_eval task_state_def)
  have n: "clientConnection dialling = None"
    by (simp add: dialling_eval)
  have t: "trace (changePort 9001 dialling) = [New_Socket 0, Socket_connect 0 9000 ''localhost'']"
    by (simp add: dialling_eval model_defs)
  have l: "length (cancelables dialling) = 1" "length (sockets dialling) = 1"
      "targetHost dialling = ''localhost''"
    by (simp_all add: dialling_eval)
  have g: "9002 \<noteq> targetPort both" "connectingPromise both = Some 1"
      "1 < length (cancelables both)" "task_state 1 both = Pending"
    by (simp_all add: both_eval task_state_def)
  have hook: "c_onCancel (cancelables both ! 1) = Some (Close_server_and_reject 0)"
    by (simp add: both_eval)
  have ts: "\<forall>t \<in> set [Call_connect, On_socket 0 Ev_connect]. \<not> is_changePort t"
    by simp
  note a = changePort_cancels_and_redirects [OF h, of sample_imports]
  note b = changePort_cancels_and_redirects [OF g, of sample_imports]
  note a3 = a [THEN conjunct2, THEN conjunct2, THEN conjunct1, rule_format, OF n]
  from a3 have "fst (connect (changePort 9001 dialling)) = Cancelable_promise 1 \<and>
      trace (snd (connect (changePort 9001 dialling))) =
        trace (changePort 9001 dialling) @ [New_Socket 1, Socket_connect 1 9001 ''localhost'']"
    by (simp add: l)
  moreover from a have "task_state 0 (changePort 9001 dialling) = Rejected default_cancel_reason"
    by blast
  moreover from a [THEN conjunct1] have "connectingPromise (changePort 9001 dialling) = None"
    by simp
  moreover from b hook have "trace (changePort 9002 both) = trace both @ [Server_close 0]"
    by simp
  moreover from a ts have
    "targetPort (run sample_imports [Call_connect, On_socket 0 Ev_connect] (changePort 9001 dialling)) = 9001"
    by blast
  ultimately show ?thesis
    using h(4) t by (simp add: default_cancel_reason_def)
qed

text \<open>
  Claim C6 speaks of every value given to \<^verbatim>\<open>setError\<close>. \<^verbatim>\<open>initialize\<close> tests the recorded
  value for truthiness (\<^verbatim>\<open>if (this.error)\<close>), so a falsy one, such as the empty string or
  \<^verbatim>\<open>undefined\<close>, is recorded and stops nothing: \<^verbatim>\<open>initialize\<close> goes on to connect.
\<close>

theorem initialize_proceeds_after_falsy_setError:
  "error (setError (JStr []) fresh) = JStr [] \<and>
   initialize (setError (JStr []) fresh) =
     (Init_await_connect (Cancelable_promise 0),
      (setError (JStr []) fresh)
        \<lparr> socket := Some 0, sockets := [Dialled 0],
          cancelables := [\<lparr>c_state = Pending, c_onCancel = None\<rparr>],
          connectingPromise := Some 0,
          trace := [New_Socket 0, Socket_connect 0 9000 ''localhost''] \<rparr>) \<and>
   error (setError JUndefined fresh) = JUndefined \<and>
   fst (initialize (setError JUndefined fresh)) = Init_await_connect (Cancelable_promise 0)"
  by (simp add: fresh_def model_defs)

text \<open>
  Claim C6, amended. For every truthy value \<open>err\<close>, \<^verbatim>\<open>setError(err)\<close> records \<open>err\<close>, leaves
  the slot empty and, when the slot held a pending attempt, has cancelled it with \<open>err\<close>:
  its promise is rejected with \<open>err\<close>. From then on, whatever happens to the proxy short
  of another \<^verbatim>\<open>setError\<close>, every call of \<^verbatim>\<open>initialize\<close> fails at once with exactly
  \<open>err\<close> and leaves the proxy as it was, so it does not attempt to connect.
\<close>

theorem setError_is_sticky_for_initialize:
  assumes "truthy err"
  shows "error (setError err st) = err \<and>
         connectingPromise (setError err st) = None \<and>
         (\<forall>p. connectingPromise st = Some p \<and> p < length (cancelables st) \<and> task_state p st = Pending \<longrightarrow>
              task_state p (setError err st) = Rejected err) \<and>
         (\<forall>ts. (\<forall>t \<in> set ts. \<not> is_setError t) \<longrightarrow>
              initialize (run env ts (setError err st)) = (Init_throw err, run env ts (setError err st)))"
proof -
  have defined: "err \<noteq> JUndefined" using assms by auto
  have recorded: "error (setError err st) = err" by (simp add: setError_frame)
  have cleared: "connectingPromise (setError err st) = None"
    by (simp add: setError_def Let_def split: option.splits)
  have cancelled: "task_state p (setError err st) = Rejected err"
    if "connectingPromise st = Some p" "p < length (cancelables st)" "task_state p st = Pending" for p
    using cancel_pending(1) [OF that(3) that(2), of err] that(1) defined
    by (simp add: setError_def Let_def task_state_updates)
  have fails: "initialize (run env ts (setError err st)) = (Init_throw err, run env ts (setError err st))"
    if "\<forall>t \<in> set ts. \<not> is_setError t" for ts
    using error_run [OF that, of env "setError err st"] recorded assms by (simp add: initialize_def)
  show ?thesis using recorded cleared cancelled fails by blast
qed

theorem setError_is_sticky_for_initialize_witness:
  "task_state 0 (setError (JStr ''launch failed'') dialling) = Rejected (JStr ''launch failed'') \<and>
   fst (initialize (run sample_imports [Call_changePort 9001, Call_connect, On_socket 1 Ev_connect]
                      (setError (JStr ''launch failed'') dialling)))
     = Init_throw (JStr ''launch failed'')"
proof -
  have h: "truthy (JStr ''launch failed'')" by simp
  have p: "connectingPromise dialling = Some 0 \<and> 0 < length (cancelables dialling) \<and>
      task_state 0 dialling = Pending"
    by (simp add: dialling_eval task_state_def)
  have ts: "\<forall>t \<in> set [Call_changePort 9001, Call_connect, On_socket 1 Ev_connect]. \<not> is_setError t"
    by simp
  from setError_is_sticky_for_initialize [OF h, of dialling sample_imports] p ts
  show ?thesis by (metis fst_conv)
qed

section \<open>The initialize handshake\<close>

text \<open>
  Claim C7. A call of \<^verbatim>\<open>initialize\<close> on a proxy with no sticky error suspends on
  \<^verbatim>\<open>connect()\<close>. Resumed with a channel, with the first workspace folder \<open>w\<close> and
  \<^verbatim>\<open>fileURLToPath\<close> turning its uri into \<open>rootPath\<close>, it sends one \<^verbatim>\<open>initialize\<close> request whose
  argument has \<^verbatim>\<open>processId\<close> null, the given workspace folders, \<^verbatim>\<open>rootUri\<close> the uri of \<open>w\<close>,
  the given capabilities and \<^verbatim>\<open>rootPath\<close>, followed by \<^verbatim>\<open>initializationOptions\<close> exactly when
  \<^verbatim>\<open>initOptions\<close> is given. Resumed with the backend's result, it sends the \<^verbatim>\<open>initialized\<close>
  notification and sets \<^verbatim>\<open>initialized\<close> in the very turn that returns the result. (An empty
  list of folders, or a uri \<^verbatim>\<open>fileURLToPath\<close> refuses, makes the call throw before
  anything is sent.)
\<close>

theorem initialize_handshake:
  assumes "\<not> truthy (error st)"
  shows "initialize st = (Init_await_connect (fst (connect st)), snd (connect st)) \<and>
    (\<forall>p st1 conn w ws rootPath reply.
       await p st1 = Fulfilled conn \<and> fileURLToPath env (uri w) = Inr rootPath \<longrightarrow>
       initialize_resume env clientCapabilities (w # ws) initOptions (Init_await_connect p) reply st1 =
         (Init_await_reply conn (uri w),
          st1\<lparr>trace := trace st1 @
            [Conn_sendRequest conn (Method ''initialize'')
               [JObj ([(''processId'', JNull),
                       (''workspaceFolders'', JArr (map folder_value (w # ws))),
                       (''rootUri'', JStr (uri w)),
                       (''capabilities'', clientCapabilities),
                       (''rootPath'', JStr rootPath)] @
                      (case initOptions of
                         Some opts \<Rightarrow> [(''initializationOptions'', JObj opts)]
                       | None \<Rightarrow> []))]]\<rparr>)) \<and>
    (\<forall>conn rootUri r st2.
       initialize_resume env clientCapabilities workspaceFolders initOptions
           (Init_await_reply conn rootUri) (Fulfilled r) st2 =
         (Init_return r,
          st2\<lparr>trace := trace st2 @
                 [Logger Logger_info (''initialized at '' @ rootUri),
                  Conn_sendNotification conn InitializedNotification_type [JObj []]],
              initialized := True\<rparr>))"
  using assms
  by (simp add: initialize_def initialize_params_def initialize_argument_def perform_def Let_def
        split: prod.splits option.splits)

theorem initialize_handshake_witness:
  "fst (initialize connected) = Init_await_connect (Promise_resolve 0) \<and>
   initialize_resume sample_imports (JObj []) [proj] None
       (Init_await_connect (Promise_resolve 0)) Pending connected =
     (Init_await_reply 0 ''file:///proj'',
      connected\<lparr>trace := trace connected @
        [Conn_sendRequest 0 (Method ''initialize'')
           [JObj [(''processId'', JNull),
                  (''workspaceFolders'',
                   JArr [JObj [(''uri'', JStr ''file:///proj''), (''name'', JStr ''proj'')]]),
                  (''rootUri'', JStr ''file:///proj''),
                  (''capabilities'', JObj []),
                  (''rootPath'', JStr ''/proj'')]]]\<rparr>)"
proof -
  have ok: "\<not> truthy (error connected)"
    by (simp add: connected_eval)
  have c: "connect connected = (Promise_resolve 0, connected)"
    by (simp add: connected_eval connect_def)
  have aw: "await (Promise_resolve 0) connected = Fulfilled 0 \<and>
      fileURLToPath sample_imports (uri proj) = Inr ''/proj''"
    by (simp add: sample_imports_def proj_def)
  from initialize_handshake [OF ok, of sample_imports "JObj []" None "[proj]"] c aw
  show ?thesis
    by (simp del: initialize_resume.simps add: proj_def folder_value_def)
qed

section \<open>Routing of log-message notifications\<close>

text \<open>
  Claim C8. For every inbound log-message notification handled in a state \<open>st\<close>: severity
  \<^verbatim>\<open>Log\<close> is logged at the debug level whatever the verbose flag says; when the verbose flag
  of the options object is false at that moment, \<^verbatim>\<open>Info\<close> goes to debug, \<^verbatim>\<open>Warning\<close> to the
  general log level and \<^verbatim>\<open>Error\<close> to warn; when it is true, \<^verbatim>\<open>Info\<close> goes to info,
  \<^verbatim>\<open>Warning\<close> to warn and \<^verbatim>\<open>Error\<close> to error. The handler makes exactly that one logger call
  with the notification's message and changes nothing else.
\<close>

theorem log_message_routing:
  "onLogMessage MessageType_Log m st = st\<lparr>trace := trace st @ [Logger Logger_debug m]\<rparr> \<and>
   (\<not> lspOptions_verbose st \<longrightarrow>
      onLogMessage MessageType_Info m st = st\<lparr>trace := trace st @ [Logger Logger_debug m]\<rparr> \<and>
      onLogMessage MessageType_Warning m st = st\<lparr>trace := trace st @ [Logger Logger_log m]\<rparr> \<and>
      onLogMessage MessageType_Error m st = st\<lparr>trace := trace st @ [Logger Logger_warn m]\<rparr>) \<and>
   (lspOptions_verbose st \<longrightarrow>
      onLogMessage MessageType_Info m st = st\<lparr>trace := trace st @ [Logger Logger_info m]\<rparr> \<and>
      onLogMessage MessageType_Warning m st = st\<lparr>trace := trace st @ [Logger Logger_warn m]\<rparr> \<and>
      onLogMessage MessageType_Error m st = st\<lparr>trace := trace st @ [Logger Logger_error m]\<rparr>)"
  by (simp add: perform_def)

theorem log_message_routing_witness:
  "trace (onLogMessage MessageType_Warning ''disk full'' (constructor 9000 ''localhost'' False))
     = [Logger Logger_log ''disk full''] \<and>
   trace (onLogMessage MessageType_Warning ''disk full'' (constructor 9000 ''localhost'' True))
     = [Logger Logger_warn ''disk full''] \<and>
   trace (onLogMessage MessageType_Log ''tick'' (constructor 9000 ''localhost'' True))
     = [Logger Logger_debug ''tick'']"
proof -
  have quiet: "\<not> lspOptions_verbose (constructor 9000 ''localhost'' False)"
    by (simp add: constructor_def)
  have loud: "lspOptions_verbose (constructor 9000 ''localhost'' True)"
    by (simp add: constructor_def)
  have empty: "trace (constructor 9000 ''localhost'' v) = []" for v
    by (simp add: constructor_def)
  note q = log_message_routing [of "''disk full''" "constructor 9000 ''localhost'' False"]
  note l = log_message_routing [of "''disk full''" "constructor 9000 ''localhost'' True"]
  note t = log_message_routing [of "''tick''" "constructor 9000 ''localhost'' True"]
  from q quiet have "onLogMessage MessageType_Warning ''disk full'' (constructor 9000 ''localhost'' False)
      = (constructor 9000 ''localhost'' False)
          \<lparr>trace := trace (constructor 9000 ''localhost'' False) @ [Logger Logger_log ''disk full'']\<rparr>"
    by blast
  moreover from l loud have "onLogMessage MessageType_Warning ''disk full'' (constructor 9000 ''localhost'' True)
      = (constructor 9000 ''localhost'' True)
          \<lparr>trace := trace (constructor 9000 ''localhost'' True) @ [Logger Logger_warn ''disk full'']\<rparr>"
    by blast
  moreover from t have "onLogMessage MessageType_Log ''tick'' (constructor 9000 ''localhost'' True)
      = (constructor 9000 ''localhost'' True)
          \<lparr>trace := trace (constructor 9000 ''localhost'' True) @ [Logger Logger_debug ''tick'']\<rparr>"
    by blast
  ultimately show ?thesis
    by (simp del: onLogMessage.simps add: empty)
qed

section \<open>exit\<close>

text \<open>
  Claim C9 calls \<^verbatim>\<open>exit()\<close> idempotent. It is not: nothing in \<^verbatim>\<open>exit()\<close> looks at \<^verbatim>\<open>closed\<close>,
  so a second call emits the \<^verbatim>\<open>exit\<close> event again and, while the channel exists, sends the
  \<^verbatim>\<open>shutdown\<close> request and the \<^verbatim>\<open>exit\<close> notification again.
\<close>

theorem second_exit_sends_and_emits_again:
  "trace (exit fresh) = [Emit ''exit'' []] \<and>
   trace (exit (exit fresh)) = [Emit ''exit'' [], Emit ''exit'' []] \<and>
   exit (exit fresh) \<noteq> exit fresh \<and>
   trace (exit (exit connected)) =
     trace (exit connected) @
       [Logger Logger_info ''sending `shutdown` request to language server.'',
        Conn_sendRequest 0 (Method ''shutdown'') [],
        Logger Logger_info ''sending `exit` notification to language server.'',
        Conn_sendNotification 0 ExitNotification_type [],
        Emit ''exit'' []]"
proof -
  have a: "trace (exit fresh) = [Emit ''exit'' []]"
    by (simp add: fresh_def model_defs)
  have b: "trace (exit (exit fresh)) = [Emit ''exit'' [], Emit ''exit'' []]"
    by (simp add: fresh_def model_defs)
  have c: "exit (exit fresh) \<noteq> exit fresh"
    using a b by auto
  have d: "trace (exit (exit connected)) =
     trace (exit connected) @
       [Logger Logger_info ''sending `shutdown` request to language server.'',
        Conn_sendRequest 0 (Method ''shutdown'') [],
        Logger Logger_info ''sending `exit` notification to language server.'',
        Conn_sendNotification 0 ExitNotification_type [],
        Emit ''exit'' []]"
    by (simp add: exit_unfold connected_eval)
  show ?thesis using a b c d by blast
qed

text \<open>
  Claim C9, amended. Every call of \<^verbatim>\<open>exit()\<close> runs three statements in order. The first
  sets \<^verbatim>\<open>closed\<close> and does nothing else, so nothing has been sent or emitted before
  \<^verbatim>\<open>closed\<close> is true. The second, only if a channel exists, sends a \<^verbatim>\<open>shutdown\<close> request and
  then an \<^verbatim>\<open>exit\<close> notification on that channel (each announced in the log, neither
  awaited). The third emits the \<^verbatim>\<open>exit\<close> event to every listener registered for it, in
  order of registration; \<^verbatim>\<open>onExit\<close> registers such a listener. With no channel, \<^verbatim>\<open>closed\<close> is
  set and the event emitted all the same. The operation is terminal: whatever happens
  afterwards, \<^verbatim>\<open>closed\<close> stays true. It is not idempotent: a second call leaves every
  field of the proxy as the first call left it, and sends and emits again.
\<close>

theorem exit_protocol:
  "exit st = exit_after 3 st \<and>
   exit_after 0 st = st \<and>
   exit_after 1 st = st\<lparr>closed := True\<rparr> \<and>
   exit_after 2 st =
     st\<lparr> closed := True,
         trace := trace st @
           (case clientConnection st of
              Some c \<Rightarrow>
                [Logger Logger_info ''sending `shutdown` request to language server.'',
                 Conn_sendRequest c (Method ''shutdown'') [],
                 Logger Logger_info ''sending `exit` notification to language server.'',
                 Conn_sendNotification c ExitNotification_type []]
            | None \<Rightarrow> []) \<rparr> \<and>
   exit st =
     st\<lparr> closed := True,
         trace := trace st @
           (case clientConnection st of
              Some c \<Rightarrow>
                [Logger Logger_info ''sending `shutdown` request to language server.'',
                 Conn_sendRequest c (Method ''shutdown'') [],
                 Logger Logger_info ''sending `exit` notification to language server.'',
                 Conn_sendNotification c ExitNotification_type []]
            | None \<Rightarrow> []) @
           [Emit ''exit'' (map snd (filter (\<lambda>l. fst l = ''exit'') (eventEmitter st)))] \<rparr> \<and>
   (clientConnection st = None \<longrightarrow>
      closed (exit st) \<and>
      trace (exit st) = trace st @ [Emit ''exit'' (map snd (filter (\<lambda>l. fst l = ''exit'') (eventEmitter st)))]) \<and>
   map snd (filter (\<lambda>l. fst l = ''exit'') (eventEmitter (onExit listener st))) =
     map snd (filter (\<lambda>l. fst l = ''exit'') (eventEmitter st)) @ [listener] \<and>
   exit (exit st) =
     (exit st)\<lparr> trace := trace (exit st) @
           (case clientConnection st of
              Some c \<Rightarrow>
                [Logger Logger_info ''sending `shutdown` request to language server.'',
                 Conn_sendRequest c (Method ''shutdown'') [],
                 Logger Logger_info ''sending `exit` notification to language server.'',
                 Conn_sendNotification c ExitNotification_type []]
            | None \<Rightarrow> []) @
           [Emit ''exit'' (map snd (filter (\<lambda>l. fst l = ''exit'') (eventEmitter st)))] \<rparr> \<and>
   exit (exit st) \<noteq> exit st \<and>
   closed (run env ts (exit st))"
proof -
  have stages: "exit st = exit_after 3 st" "exit_after 0 st = st" "exit_after 1 st = st\<lparr>closed := True\<rparr>"
    by (simp_all add: exit_after_def exit_statements_def exit_def Let_def)
  have sends: "exit_after 2 st =
     st\<lparr> closed := True,
         trace := trace st @
           (case clientConnection st of
              Some c \<Rightarrow>
                [Logger Logger_info ''sending `shutdown` request to language server.'',
                 Conn_sendRequest c (Method ''shutdown'') [],
                 Logger Logger_info ''sending `exit` notification to language server.'',
                 Conn_sendNotification c ExitNotification_type []]
            | None \<Rightarrow> []) \<rparr>"
    by (simp add: exit_after_def exit_statements_def perform_def numeral_2_eq_2 split: option.splits)
  have "closed (exit st)" by (simp add: exit_unfold)
  then have terminal: "closed (run env ts (exit st))" by (rule closed_run)
  have "length (trace (exit (exit st))) \<noteq> length (trace (exit st))"
    by (simp add: exit_unfold)
  then have again: "exit (exit st) \<noteq> exit st" by metis
  have rest: "exit st =
     st\<lparr> closed := True,
         trace := trace st @
           (case clientConnection st of
              Some c \<Rightarrow>
                [Logger Logger_info ''sending `shutdown` request to language server.'',
                 Conn_sendRequest c (Method ''shutdown'') [],
                 Logger Logger_info ''sending `exit` notification to language server.'',
                 Conn_sendNotification c ExitNotification_type []]
            | None \<Rightarrow> []) @
           [Emit ''exit'' (map snd (filter (\<lambda>l. fst l = ''exit'') (eventEmitter st)))] \<rparr> \<and>
   (clientConnection st = None \<longrightarrow>
      closed (exit st) \<and>
      trace (exit st) = trace st @ [Emit ''exit'' (map snd (filter (\<lambda>l. fst l = ''exit'') (eventEmitter st)))]) \<and>
   map snd (filter (\<lambda>l. fst l = ''exit'') (eventEmitter (onExit listener st))) =
     map snd (filter (\<lambda>l. fst l = ''exit'') (eventEmitter st)) @ [listener] \<and>
   exit (exit st) =
     (exit st)\<lparr> trace := trace (exit st) @
           (case clientConnection st of
              Some c \<Rightarrow>
                [Logger Logger_info ''sending `shutdown` request to language server.'',
                 Conn_sendRequest c (Method ''shutdown'') [],
                 Logger Logger_info ''sending `exit` notification to language server.'',
                 Conn_sendNotification c ExitNotification_type []]
            | None \<Rightarrow> []) @
           [Emit ''exit'' (map snd (filter (\<lambda>l. fst l = ''exit'') (eventEmitter st)))] \<rparr>"
    by (simp add: exit_unfold onExit_def on_def)
  show ?thesis
    using stages sends rest again terminal by blast
qed

theorem exit_protocol_witness:
  "trace (exit (onExit 7 connected)) =
     trace connected @
       [Logger Logger_info ''sending `shutdown` request to language server.'',
        Conn_sendRequest 0 (Method ''shutdown'') [],
        Logger Logger_info ''sending `exit` notification to language server.'',
        Conn_sendNotification 0 ExitNotification_type [],
        Emit ''exit'' [7]] \<and>
   closed (exit (onExit 7 connected)) \<and>
   closed (exit_after 1 connected) \<and> trace (exit_after 1 connected) = trace connected \<and>
   closed (exit fresh) \<and> trace (exit fresh) = [Emit ''exit'' []]"
proof -
  have c: "clientConnection (onExit 7 connected) = Some 0"
      "eventEmitter (onExit 7 connected) = [(''exit'', 7)]"
      "trace (onExit 7 connected) = trace connected"
    by (simp_all add: connected_eval onExit_def on_def)
  have f: "clientConnection fresh = None" "eventEmitter fresh = []" "trace fresh = []"
    by (simp_all add: fresh_def constructor_def)
  note a = exit_protocol [of "onExit 7 connected" 0 sample_imports "[]"]
  note b = exit_protocol [of fresh 0 sample_imports "[]"]
  note d = exit_protocol [of connected 0 sample_imports "[]"]
  from d have "exit_after 1 connected = connected\<lparr>closed := True\<rparr>" by blast
  then have "closed (exit_after 1 connected) \<and> trace (exit_after 1 connected) = trace connected"
    by simp
  moreover from a have "exit (onExit 7 connected) = (onExit 7 connected)\<lparr> closed := True,
         trace := trace (onExit 7 connected) @
           (case clientConnection (onExit 7 connected) of
              Some c \<Rightarrow>
                [Logger Logger_info ''sending `shutdown` request to language server.'',
                 Conn_sendRequest c (Method ''shutdown'') [],
                 Logger Logger_info ''sending `exit` notification to language server.'',
                 Conn_sendNotification c ExitNotification_type []]
            | None \<Rightarrow> []) @
           [Emit ''exit'' (map snd (filter (\<lambda>l. fst l = ''exit'') (eventEmitter (onExit 7 connected))))] \<rparr>"
    by blast
  moreover from b f(1) have "closed (exit fresh) \<and>
      trace (exit fresh) = trace fresh @ [Emit ''exit'' (map snd (filter (\<lambda>l. fst l = ''exit'') (eventEmitter fresh)))]"
    by blast
  ultimately show ?thesis
    by (simp add: c f)
qed



end
